theory Spec2Isabelle
  imports Complex_Main
begin

section \<open>Python values, exceptions and dictionaries\<close>

text \<open>
  Dictionaries and the values decoded from JSON text. A Python \<open>dict\<close> keeps its keys in
  insertion order, so an object is an association list. Numbers are kept as integers: no
  function below looks inside a number.
\<close>

datatype json =
    JNull
  | JBool bool
  | JNumber int
  | JString string
  | JArray "json list"
  | JObject "(string \<times> json) list"

text \<open>
  An exception is its class name and the text \<open>str(e)\<close>. Only instances of
  \<open>Exception\<close> are modelled: every handler of the source is \<open>except Exception\<close>.
\<close>

datatype exn = Exn (exn_class: string) (exn_str: string)

text \<open>\<open>d[k] = v\<close> on a dictionary: an existing key keeps its position, a new key goes last.\<close>

fun dict_set :: "('k \<times> 'v) list \<Rightarrow> 'k \<Rightarrow> 'v \<Rightarrow> ('k \<times> 'v) list" where
  "dict_set [] k v = [(k, v)]"
| "dict_set ((k', v') # d) k v =
     (if k' = k then (k, v) # d else (k', v') # dict_set d k v)"

text \<open>\<open>sep.join(xs)\<close>.\<close>

fun join :: "string \<Rightarrow> string list \<Rightarrow> string" where
  "join sep [] = []"
| "join sep [x] = x"
| "join sep (x # y # ys) = x @ sep @ join sep (y # ys)"

text \<open>\<open>d.get(k)\<close> on a decoded object; anything that is not an object has no keys.\<close>

fun jget :: "json \<Rightarrow> string \<Rightarrow> json option" where
  "jget (JObject kvs) k = map_of kvs k"
| "jget _ k = None"

text \<open>A name between single quotes, as the f-strings of the source write it.\<close>

definition quoted :: "string \<Rightarrow> string" where
  "quoted s = [CHR 0x27] @ s @ [CHR 0x27]"

section \<open>Tool contract (tools/base.py)\<close>

record ToolParameter =
  param_name :: string
  param_type :: string
  param_description :: string
  param_required :: bool
  param_enum :: "string list option"

text \<open>
  A tool. \<open>execute\<close> receives the keyword arguments and may do anything to the world
  outside the program (files, network), which is the state \<open>'w\<close>; it returns text or raises.
\<close>

record 'w BaseTool =
  tool_name :: string
  tool_description :: string
  tool_parameters :: "ToolParameter list"
  tool_execute :: "(string \<times> json) list \<Rightarrow> 'w \<Rightarrow> (exn + string) \<times> 'w"

text \<open>The dictionary \<open>d\<close> built for one parameter; \<open>if p.enum\<close> is false for None and for [].\<close>

definition param_schema :: "ToolParameter \<Rightarrow> json" where
  "param_schema p =
     JObject ([(''type'', JString (param_type p)),
               (''description'', JString (param_description p))] @
              (case param_enum p of
                 Some (e # es) \<Rightarrow> [(''enum'', JArray (map JString (e # es)))]
               | _ \<Rightarrow> []))"

text \<open>The loop of \<open>to_openai_tool\<close> over \<open>self.parameters\<close>.\<close>

fun schema_loop ::
  "ToolParameter list \<Rightarrow> (string \<times> json) list \<Rightarrow> string list
     \<Rightarrow> (string \<times> json) list \<times> string list" where
  "schema_loop [] properties required = (properties, required)"
| "schema_loop (p # ps) properties required =
     schema_loop ps
       (dict_set properties (param_name p) (param_schema p))
       (if param_required p then required @ [param_name p] else required)"

definition to_openai_tool :: "'w BaseTool \<Rightarrow> json" where
  "to_openai_tool self =
     (case schema_loop (tool_parameters self) [] [] of
        (properties, required) \<Rightarrow>
          JObject
            [(''type'', JString ''function''),
             (''function'',
              JObject
                [(''name'', JString (tool_name self)),
                 (''description'', JString (tool_description self)),
                 (''parameters'',
                  JObject
                    [(''type'', JString ''object''),
                     (''properties'', JObject properties),
                     (''required'', JArray (map JString required))])])])"

section \<open>Tool registry (tools/registry.py)\<close>

record 'w ToolRegistry =
  tools :: "(string \<times> 'w BaseTool) list"
  tool_errors :: "string list"

definition new_registry :: "'w ToolRegistry" where
  "new_registry = \<lparr>tools = [], tool_errors = []\<rparr>"

text \<open>What \<open>register\<close> may be handed: a tool, or any other object.\<close>

datatype 'w pyobj = ToolObj "'w BaseTool" | OtherObj

text \<open>The body of the \<open>try\<close> in \<open>register\<close>; nothing is stored before a \<open>raise\<close>.\<close>

definition register_try :: "'w ToolRegistry \<Rightarrow> 'w pyobj \<Rightarrow> exn + 'w ToolRegistry" where
  "register_try self obj =
     (case obj of
        OtherObj \<Rightarrow> Inl (Exn ''ValueError'' ''Tool must inherit from BaseTool'')
      | ToolObj tool \<Rightarrow>
          if tool_name tool = [] then Inl (Exn ''ValueError'' ''Tool must have a valid name'')
          else Inr (self\<lparr>tools := dict_set (tools self) (tool_name tool) tool\<rparr>))"

definition register :: "'w ToolRegistry \<Rightarrow> 'w pyobj \<Rightarrow> 'w ToolRegistry" where
  "register self obj =
     (case register_try self obj of
        Inr self' \<Rightarrow> self'
      | Inl e \<Rightarrow>
          self\<lparr>tool_errors := tool_errors self @ [''Failed to register tool: '' @ exn_str e]\<rparr>)"

definition list_tools :: "'w ToolRegistry \<Rightarrow> string list" where
  "list_tools self = map fst (tools self)"

definition get_tool :: "'w ToolRegistry \<Rightarrow> string \<Rightarrow> exn + 'w BaseTool" where
  "get_tool self name =
     (case map_of (tools self) name of
        None \<Rightarrow>
          Inl (Exn ''ValueError''
                 (''Tool '' @ quoted name @ '' not found. Available tools: '' @
                  join '', '' (map fst (tools self))))
      | Some tool \<Rightarrow> Inr tool)"

text \<open>
  \<open>get_openai_tools\<close> skips a tool whose conversion raises; \<open>to_openai_tool\<close> above
  raises nothing, so every tool is converted.
\<close>

definition get_openai_tools :: "'w ToolRegistry \<Rightarrow> json list" where
  "get_openai_tools self = map (\<lambda>(name, tool). to_openai_tool tool) (tools self)"

record registry_stats =
  total_tools :: nat
  tool_names :: "string list"
  errors :: nat
  error_messages :: "string list"

definition get_registry_stats :: "'w ToolRegistry \<Rightarrow> registry_stats" where
  "get_registry_stats self =
     \<lparr>total_tools = length (tools self),
      tool_names = map fst (tools self),
      errors = length (tool_errors self),
      error_messages = tool_errors self\<rparr>"

subsection \<open>execute_tool\<close>

definition required_params :: "'w BaseTool \<Rightarrow> string list" where
  "required_params tool = map param_name (filter param_required (tool_parameters tool))"

definition missing_params :: "'w BaseTool \<Rightarrow> (string \<times> json) list \<Rightarrow> string list" where
  "missing_params tool kwargs =
     filter (\<lambda>param. param \<notin> set (map fst kwargs)) (required_params tool)"

text \<open>The body of the \<open>try\<close> in \<open>execute_tool\<close>: \<open>Inl\<close> is an exception leaving it.\<close>

definition execute_tool_try ::
  "'w ToolRegistry \<Rightarrow> string \<Rightarrow> (string \<times> json) list \<Rightarrow> 'w \<Rightarrow> (exn + string) \<times> 'w" where
  "execute_tool_try self name kwargs w =
     (case get_tool self name of
        Inl e \<Rightarrow> (Inl e, w)
      | Inr tool \<Rightarrow>
          if missing_params tool kwargs \<noteq> [] then
            (Inl (Exn ''ValueError''
                    (''Missing required parameters: '' @
                     join '', '' (missing_params tool kwargs))), w)
          else tool_execute tool kwargs w)"

text \<open>
  \<open>execute_tool\<close> with its handler. \<open>Inl\<close> in the result would be an exception reaching
  the caller.
\<close>

definition execute_tool ::
  "'w ToolRegistry \<Rightarrow> string \<Rightarrow> (string \<times> json) list \<Rightarrow> 'w \<Rightarrow> (exn + string) \<times> 'w" where
  "execute_tool self name kwargs w =
     (case execute_tool_try self name kwargs w of
        (Inr result, w') \<Rightarrow> (Inr result, w')
      | (Inl e, w') \<Rightarrow> (Inr (''Error: '' @ exn_str e), w'))"

subsection \<open>auto_discover_tools\<close>

text \<open>
  What the scan of the directory finds. An attribute of a loaded module is \<open>BaseTool\<close>
  itself, a class derived from it (with the outcome of calling it without arguments), or
  anything else. A file carries its name, its size and the outcome of importing its module:
  an exception, or the attributes that \<open>dir(mod)\<close> lists.
\<close>

datatype 'w attr =
    BaseToolClass
  | ToolClass "exn + 'w BaseTool"
  | OtherAttr

record 'w plugin_file =
  file_name :: string
  st_size :: nat
  import_module :: "exn + (string \<times> 'w attr) list"

text \<open>\<open>s.startswith(p)\<close>.\<close>

definition startswith :: "string \<Rightarrow> string \<Rightarrow> bool" where
  "startswith s p = (take (length p) s = p)"

text \<open>
  The state of the scan: the registry and the two locals \<open>tools_found\<close> and \<open>errors\<close>,
  which the source reports on the console when the scan ends.
\<close>

record 'w discovery =
  registry :: "'w ToolRegistry"
  tools_found :: nat
  discovery_errors :: "string list"

text \<open>The loop over \<open>dir(mod)\<close> of one module.\<close>

fun discover_attrs ::
  "string \<Rightarrow> (string \<times> 'w attr) list \<Rightarrow> 'w discovery \<Rightarrow> 'w discovery" where
  "discover_attrs fname [] st = st"
| "discover_attrs fname ((attr_name, a) # rest) st =
     discover_attrs fname rest
       (case a of
          ToolClass (Inr tool) \<Rightarrow>
            st\<lparr>registry := register (registry st) (ToolObj tool),
               tools_found := tools_found st + 1\<rparr>
        | ToolClass (Inl e) \<Rightarrow>
            st\<lparr>discovery_errors := discovery_errors st @
                 [''Failed to register '' @ attr_name @ '' from '' @ fname @ '': '' @ exn_str e]\<rparr>
        | _ \<Rightarrow> st)"

text \<open>The loop over the files of the directory.\<close>

fun discover_files :: "'w plugin_file list \<Rightarrow> 'w discovery \<Rightarrow> 'w discovery" where
  "discover_files [] st = st"
| "discover_files (f # fs) st =
     discover_files fs
       (if startswith (file_name f) ''__'' then st
        else if st_size f = 0 then st
        else (case import_module f of
                Inl e \<Rightarrow>
                  st\<lparr>discovery_errors := discovery_errors st @
                       [''Error loading module '' @ file_name f @ '': '' @ exn_str e]\<rparr>
              | Inr attrs \<Rightarrow> discover_attrs (file_name f) attrs st))"

text \<open>
  \<open>auto_discover_tools\<close>: the directory is \<open>None\<close> when the path does not exist,
  otherwise the files that match \<open>*.py\<close>, in the order the scan yields them.
\<close>

definition auto_discover_tools ::
  "'w ToolRegistry \<Rightarrow> 'w plugin_file list option \<Rightarrow> 'w discovery" where
  "auto_discover_tools self dir =
     (case dir of
        None \<Rightarrow> \<lparr>registry = self, tools_found = 0, discovery_errors = []\<rparr>
      | Some files \<Rightarrow>
          discover_files files \<lparr>registry = self, tools_found = 0, discovery_errors = []\<rparr>)"

section \<open>The chatbot (chatbot/bot.py)\<close>

record Config =
  api_key :: string
  base_url :: "string option"
  model :: string
  max_tokens :: int
  temperature :: real
  system_prompt :: string

text \<open>What the provider's client library hands back: a tool call and a message.\<close>

record ToolCall =
  call_id :: string
  call_function_name :: string
  call_function_arguments :: string

record AssistantMessage =
  am_content :: "string option"
  am_tool_calls :: "ToolCall list option"

text \<open>
  The arguments of \<open>client.chat.completions.create\<close>. An argument that is not passed and
  one passed as None are both \<open>None\<close>.
\<close>

record request =
  req_model :: string
  req_messages :: "json list"
  req_max_tokens :: int
  req_temperature :: real
  req_tools :: "json list option"
  req_tool_choice :: "string option"

text \<open>
  The model call is outside the program: it reads the request, may depend on and change
  the world, and either raises or returns the messages of \<open>response.choices\<close>.
\<close>

type_synonym 'w client = "request \<Rightarrow> 'w \<Rightarrow> (exn + AssistantMessage list) \<times> 'w"

record 'w ChatBot =
  config :: Config
  client :: "'w client"
  tool_registry :: "'w ToolRegistry"
  conversation_history :: "json list"
  message_count :: int

subsection \<open>The messages of the transcript\<close>

definition system_message :: "string \<Rightarrow> json" where
  "system_message prompt = JObject [(''role'', JString ''system''), (''content'', JString prompt)]"

definition user_message :: "string \<Rightarrow> json" where
  "user_message message = JObject [(''role'', JString ''user''), (''content'', JString message)]"

definition tool_call_entry :: "ToolCall \<Rightarrow> json" where
  "tool_call_entry tool_call =
     JObject
       [(''id'', JString (call_id tool_call)),
        (''type'', JString ''function''),
        (''function'',
         JObject
           [(''name'', JString (call_function_name tool_call)),
            (''arguments'', JString (call_function_arguments tool_call))])]"

definition tool_call_message :: "ToolCall \<Rightarrow> json" where
  "tool_call_message tool_call =
     JObject
       [(''role'', JString ''assistant''),
        (''content'', JNull),
        (''tool_calls'', JArray [tool_call_entry tool_call])]"

definition tool_result_message :: "ToolCall \<Rightarrow> string \<Rightarrow> json" where
  "tool_result_message tool_call text =
     JObject
       [(''tool_call_id'', JString (call_id tool_call)),
        (''role'', JString ''tool''),
        (''name'', JString (call_function_name tool_call)),
        (''content'', JString text)]"

definition assistant_message :: "string option \<Rightarrow> json" where
  "assistant_message text =
     JObject
       [(''role'', JString ''assistant''),
        (''content'', (case text of None \<Rightarrow> JNull | Some t \<Rightarrow> JString t))]"

definition init_chatbot :: "Config \<Rightarrow> 'w client \<Rightarrow> 'w ChatBot" where
  "init_chatbot cfg cl =
     \<lparr>config = cfg, client = cl, tool_registry = new_registry,
      conversation_history = [system_message (system_prompt cfg)],
      message_count = 0\<rparr>"

subsection \<open>Handling the tool calls of one response\<close>

text \<open>Python's truth value and type name of a decoded value.\<close>

fun truthy :: "json \<Rightarrow> bool" where
  "truthy JNull = False"
| "truthy (JBool b) = b"
| "truthy (JNumber n) = (n \<noteq> 0)"
| "truthy (JString s) = (s \<noteq> [])"
| "truthy (JArray xs) = (xs \<noteq> [])"
| "truthy (JObject kvs) = (kvs \<noteq> [])"

fun py_type_name :: "json \<Rightarrow> string" where
  "py_type_name JNull = ''NoneType''"
| "py_type_name (JBool b) = ''bool''"
| "py_type_name (JNumber n) = ''int''"
| "py_type_name (JString s) = ''str''"
| "py_type_name (JArray xs) = ''list''"
| "py_type_name (JObject kvs) = ''dict''"

text \<open>
  \<open>format_tool_call\<close> (utils/formatting.py) prints a table; all that matters here is
  \<open>(args or {}).items()\<close>, which raises for a true value that is not a dictionary.
\<close>

definition format_tool_call :: "string \<Rightarrow> json \<Rightarrow> exn + unit" where
  "format_tool_call name args =
     (case args of
        JObject kvs \<Rightarrow> Inr ()
      | _ \<Rightarrow>
          if truthy args then
            Inl (Exn ''AttributeError''
                   (quoted (py_type_name args) @ '' object has no attribute '' @ quoted ''items''))
          else Inr ())"

text \<open>
  The call \<open>self.tool_registry.execute_tool(function_name, **function_args)\<close>: the
  interpreter refuses, before the body runs, a value that is not a dictionary and a
  dictionary with a key that names one of the two positional parameters.
\<close>

definition call_execute_tool ::
  "'w ToolRegistry \<Rightarrow> string \<Rightarrow> json \<Rightarrow> 'w \<Rightarrow> (exn + string) \<times> 'w" where
  "call_execute_tool reg function_name function_args w =
     (case function_args of
        JObject kvs \<Rightarrow>
          (case find (\<lambda>k. k = ''self'' \<or> k = ''name'') (map fst kvs) of
             Some k \<Rightarrow>
               (Inl (Exn ''TypeError''
                       (''ToolRegistry.execute_tool() got multiple values for argument '' @
                        quoted k)), w)
           | None \<Rightarrow> execute_tool reg function_name kvs w)
      | _ \<Rightarrow>
          (Inl (Exn ''TypeError''
                  (''tools.registry.ToolRegistry.execute_tool() argument after ** '' @
                   ''must be a mapping, not '' @ py_type_name function_args)), w))"

text \<open>
  The body of the \<open>try\<close> for one tool call: \<open>Inl\<close> is the exception that leaves it, with
  the state at that moment; \<open>Inr\<close> is the entry appended to \<open>tool_results\<close>. \<open>loads\<close> is
  \<open>json.loads\<close>.
\<close>

definition handle_tool_call_try ::
  "(string \<Rightarrow> exn + json) \<Rightarrow> 'w ChatBot \<Rightarrow> ToolCall \<Rightarrow> 'w \<Rightarrow> (exn + json) \<times> 'w ChatBot \<times> 'w" where
  "handle_tool_call_try loads self tool_call w =
     (case loads (call_function_arguments tool_call) of
        Inl e \<Rightarrow> (Inl e, self, w)
      | Inr function_args \<Rightarrow>
          (case format_tool_call (call_function_name tool_call) function_args of
             Inl e \<Rightarrow> (Inl e, self, w)
           | Inr u \<Rightarrow>
               (case call_execute_tool (tool_registry self) (call_function_name tool_call)
                       function_args w of
                  (Inl e, w') \<Rightarrow> (Inl e, self, w')
                | (Inr result, w') \<Rightarrow>
                    (Inr (tool_result_message tool_call result),
                     self\<lparr>conversation_history :=
                            conversation_history self @ [tool_call_message tool_call]\<rparr>,
                     w'))))"

text \<open>The loop of \<open>_handle_tool_calls\<close>, with the list \<open>tool_results\<close> it builds.\<close>

fun handle_tool_calls_loop ::
  "(string \<Rightarrow> exn + json) \<Rightarrow> ToolCall list \<Rightarrow> json list \<Rightarrow> 'w ChatBot \<Rightarrow> 'w
     \<Rightarrow> json list \<times> 'w ChatBot \<times> 'w" where
  "handle_tool_calls_loop loads [] tool_results self w = (tool_results, self, w)"
| "handle_tool_calls_loop loads (tool_call # rest) tool_results self w =
     (case handle_tool_call_try loads self tool_call w of
        (Inr entry, self', w') \<Rightarrow>
          handle_tool_calls_loop loads rest (tool_results @ [entry]) self' w'
      | (Inl e, self', w') \<Rightarrow>
          handle_tool_calls_loop loads rest
            (tool_results @ [tool_result_message tool_call (''Error: '' @ exn_str e)]) self' w')"

definition handle_tool_calls ::
  "(string \<Rightarrow> exn + json) \<Rightarrow> 'w ChatBot \<Rightarrow> ToolCall list \<Rightarrow> 'w \<Rightarrow> json list \<times> 'w ChatBot \<times> 'w" where
  "handle_tool_calls loads self tool_calls w = handle_tool_calls_loop loads tool_calls [] self w"

subsection \<open>chat\<close>

text \<open>\<open>response.choices[0].message\<close>: an empty list of choices raises.\<close>

definition first_choice :: "AssistantMessage list \<Rightarrow> exn + AssistantMessage" where
  "first_choice choices =
     (case choices of
        [] \<Rightarrow> Inl (Exn ''IndexError'' ''list index out of range'')
      | m # ms \<Rightarrow> Inr m)"

definition first_request :: "'w ChatBot \<Rightarrow> request" where
  "first_request self =
     (let openai_tools = get_openai_tools (tool_registry self) in
      \<lparr>req_model = model (config self),
       req_messages = conversation_history self,
       req_max_tokens = max_tokens (config self),
       req_temperature = temperature (config self),
       req_tools = (if openai_tools \<noteq> [] then Some openai_tools else None),
       req_tool_choice = (if openai_tools \<noteq> [] then Some ''auto'' else None)\<rparr>)"

definition second_request :: "'w ChatBot \<Rightarrow> request" where
  "second_request self =
     \<lparr>req_model = model (config self),
      req_messages = conversation_history self,
      req_max_tokens = max_tokens (config self),
      req_temperature = temperature (config self),
      req_tools = None,
      req_tool_choice = None\<rparr>"

text \<open>The last two statements of the \<open>try\<close>: append the answer and return its text.\<close>

definition finish_turn ::
  "'w ChatBot \<Rightarrow> AssistantMessage \<Rightarrow> 'w \<Rightarrow> (exn + string) \<times> 'w ChatBot \<times> 'w" where
  "finish_turn self m w =
     (Inr (case am_content m of
             None \<Rightarrow> ''I don't have a response for that.''
           | Some t \<Rightarrow> if t = [] then ''I don't have a response for that.'' else t),
      self\<lparr>conversation_history :=
             conversation_history self @ [assistant_message (am_content m)]\<rparr>,
      w)"

text \<open>The body of the \<open>try\<close> in \<open>chat\<close>.\<close>

definition chat_try ::
  "(string \<Rightarrow> exn + json) \<Rightarrow> 'w ChatBot \<Rightarrow> 'w \<Rightarrow> (exn + string) \<times> 'w ChatBot \<times> 'w" where
  "chat_try loads self w =
     (case client self (first_request self) w of
        (Inl e, w1) \<Rightarrow> (Inl e, self, w1)
      | (Inr choices, w1) \<Rightarrow>
          (case first_choice choices of
             Inl e \<Rightarrow> (Inl e, self, w1)
           | Inr m \<Rightarrow>
               (case am_tool_calls m of
                  Some (c # cs) \<Rightarrow>
                    (case handle_tool_calls loads self (c # cs) w1 of
                       (tool_results, self2, w2) \<Rightarrow>
                         (let self3 = self2\<lparr>conversation_history :=
                                              conversation_history self2 @ tool_results\<rparr> in
                          case client self3 (second_request self3) w2 of
                            (Inl e, w3) \<Rightarrow> (Inl e, self3, w3)
                          | (Inr choices2, w3) \<Rightarrow>
                              (case first_choice choices2 of
                                 Inl e \<Rightarrow> (Inl e, self3, w3)
                               | Inr m2 \<Rightarrow> finish_turn self3 m2 w3)))
                | _ \<Rightarrow> finish_turn self m w1)))"

text \<open>The two statements of \<open>chat\<close> before its \<open>try\<close>: the counter and the user message.\<close>

definition begin_turn :: "'w ChatBot \<Rightarrow> string \<Rightarrow> 'w ChatBot" where
  "begin_turn self message =
     self\<lparr>message_count := message_count self + 1,
          conversation_history := conversation_history self @ [user_message message]\<rparr>"

text \<open>
  \<open>chat\<close>: the handler turns an exception of the \<open>try\<close> into the returned text.
  \<open>Inl\<close> in the result would be an exception reaching the caller.
\<close>

definition chat ::
  "(string \<Rightarrow> exn + json) \<Rightarrow> 'w ChatBot \<Rightarrow> string \<Rightarrow> 'w \<Rightarrow> (exn + string) \<times> 'w ChatBot \<times> 'w" where
  "chat loads self message w =
     (case chat_try loads (begin_turn self message) w of
        (Inr answer, self', w') \<Rightarrow> (Inr answer, self', w')
      | (Inl e, self', w') \<Rightarrow> (Inr (''Sorry, I encountered an error: '' @ exn_str e), self', w'))"



text \<open>
  Several calls of \<open>chat\<close> in a row, each on the state the previous one left, as the
  loop of \<open>run\<close> makes them for the inputs that are not commands; the final state is kept.
\<close>

fun chat_turns ::
  "(string \<Rightarrow> exn + json) \<Rightarrow> 'w ChatBot \<Rightarrow> string list \<Rightarrow> 'w \<Rightarrow> 'w ChatBot \<times> 'w" where
  "chat_turns loads self [] w = (self, w)"
| "chat_turns loads self (message # rest) w =
     (case chat loads self message w of
        (answer, self', w') \<Rightarrow> chat_turns loads self' rest w')"

section \<open>Predicates used in the statements\<close>

text \<open>What a dictionary of tools satisfies: no key twice, and no empty name.\<close>

definition registry_ok :: "'w ToolRegistry \<Rightarrow> bool" where
  "registry_ok reg = (distinct (map fst (tools reg)) \<and> [] \<notin> set (map fst (tools reg)))"

text \<open>Following keys into nested dictionaries.\<close>

fun jpath :: "json \<Rightarrow> string list \<Rightarrow> json option" where
  "jpath j [] = Some j"
| "jpath j (k # ks) = (case jget j k of None \<Rightarrow> None | Some j' \<Rightarrow> jpath j' ks)"

text \<open>
  A tool call reaches the body of \<open>execute_tool\<close>: its arguments decode to a dictionary
  and no key collides with a positional parameter.
\<close>

definition call_accepted :: "(string \<Rightarrow> exn + json) \<Rightarrow> ToolCall \<Rightarrow> bool" where
  "call_accepted loads tool_call =
     (case loads (call_function_arguments tool_call) of
        Inr (JObject kvs) \<Rightarrow> find (\<lambda>k. k = ''self'' \<or> k = ''name'') (map fst kvs) = None
      | _ \<Rightarrow> False)"

section \<open>Concrete inputs\<close>

text \<open>
  The world of the examples counts the model calls made and the tool executions run.
\<close>

type_synonym counters = "nat \<times> nat"

definition example_calculator :: "counters BaseTool" where
  "example_calculator =
     \<lparr>tool_name = ''calculator'',
      tool_description = ''Perform mathematical calculations.'',
      tool_parameters =
        [\<lparr>param_name = ''expression'', param_type = ''string'',
          param_description = ''The mathematical expression to evaluate'',
          param_required = True, param_enum = None\<rparr>],
      tool_execute = (\<lambda>kwargs (m, x). (Inr ''Result: 4'', (m, Suc x)))\<rparr>"


definition example_pair :: "counters BaseTool" where
  "example_pair =
     \<lparr>tool_name = ''pair'',
      tool_description = ''Needs a and b, then fails.'',
      tool_parameters =
        [\<lparr>param_name = ''a'', param_type = ''string'', param_description = ''first'',
          param_required = True, param_enum = None\<rparr>,
         \<lparr>param_name = ''b'', param_type = ''string'', param_description = ''second'',
          param_required = True, param_enum = None\<rparr>,
         \<lparr>param_name = ''c'', param_type = ''string'', param_description = ''third'',
          param_required = False, param_enum = Some [''u'', ''v'']\<rparr>],
      tool_execute = (\<lambda>kwargs (m, x). (Inl (Exn ''RuntimeError'' ''boom''), (m, Suc x)))\<rparr>"

definition example_x_tool :: "counters BaseTool" where
  "example_x_tool =
     \<lparr>tool_name = ''f'',
      tool_description = ''One number.'',
      tool_parameters =
        [\<lparr>param_name = ''x'', param_type = ''number'', param_description = ''a number'',
          param_required = True, param_enum = None\<rparr>],
      tool_execute = (\<lambda>kwargs (m, x). (Inr ''ok'', (m, Suc x)))\<rparr>"

definition example_registry :: "counters ToolRegistry" where
  "example_registry =
     register (register new_registry (ToolObj example_calculator)) (ToolObj example_pair)"

text \<open>
  \<open>json.loads\<close> on the three argument texts of the examples; every other text is taken
  as one that does not decode.
\<close>

definition example_loads :: "string \<Rightarrow> exn + json" where
  \<open>example_loads s =
     (if s = ''{}'' then Inr (JObject [])
      else if s = ''{"expression": "2+2"}'' then Inr (JObject [(''expression'', JString ''2+2'')])
      else if s = ''[1]'' then Inr (JArray [JNumber 1])
      else Inl (Exn ''JSONDecodeError'' ''Expecting value: line 1 column 1 (char 0)''))\<close>

definition example_call1 :: ToolCall where
  \<open>example_call1 =
     \<lparr>call_id = ''c1'', call_function_name = ''calculator'',
      call_function_arguments = ''{"expression": "2+2"}''\<rparr>\<close>

definition example_call2 :: ToolCall where
  "example_call2 =
     \<lparr>call_id = ''c2'', call_function_name = ''teleport'', call_function_arguments = ''{}''\<rparr>"

text \<open>
  A model that asks for the two calls when first called and answers in text afterwards;
  one that fails at once; and one that asks for the calls and fails afterwards.
\<close>

definition example_client :: "counters client" where
  "example_client req =
     (\<lambda>(m, x).
        (if m = 0 then
           Inr [\<lparr>am_content = None, am_tool_calls = Some [example_call1, example_call2]\<rparr>]
         else Inr [\<lparr>am_content = Some ''4'', am_tool_calls = None\<rparr>],
         (Suc m, x)))"



definition example_config :: Config where
  "example_config =
     \<lparr>api_key = ''key'', base_url = None, model = ''gpt-4o-mini'', max_tokens = 1000,
      temperature = 7 / 10, system_prompt = ''You are a helpful assistant.''\<rparr>"

definition example_bot :: "counters client \<Rightarrow> counters ChatBot" where
  "example_bot cl = (init_chatbot example_config cl)\<lparr>tool_registry := example_registry\<rparr>"

text \<open>
  A directory of three modules: the second raises when imported, the first and the third
  each define one tool class beside what they import.
\<close>

definition example_dir :: "counters plugin_file list" where
  "example_dir =
     [\<lparr>file_name = ''calculator.py'', st_size = 1200,
       import_module =
         Inr [(''BaseTool'', BaseToolClass),
              (''CalculatorTool'', ToolClass (Inr example_calculator)),
              (''List'', OtherAttr)]\<rparr>,
      \<lparr>file_name = ''broken.py'', st_size = 40,
       import_module = Inl (Exn ''ImportError'' ''No module named requests'')\<rparr>,
      \<lparr>file_name = ''pair.py'', st_size = 900,
       import_module =
         Inr [(''BaseTool'', BaseToolClass),
              (''PairTool'', ToolClass (Inr example_pair))]\<rparr>]"

section \<open>Dictionaries\<close>

lemma dict_set_keys:
  "map fst (dict_set d k v) = (if k \<in> set (map fst d) then map fst d else map fst d @ [k])"
  by (induction d k v rule: dict_set.induct) auto

lemma map_of_dict_set: "map_of (dict_set d k v) = (map_of d)(k \<mapsto> v)"
  by (induction d k v rule: dict_set.induct) auto

lemma dict_set_distinct: "distinct (map fst d) \<Longrightarrow> distinct (map fst (dict_set d k v))"
  by (simp add: dict_set_keys)


section \<open>Registration\<close>

lemma registry_ok_new: "registry_ok new_registry"
  by (simp add: registry_ok_def new_registry_def)

lemma registry_ok_register: "registry_ok reg \<Longrightarrow> registry_ok (register reg obj)"
proof (cases obj)
  case (ToolObj t)
  assume ok: "registry_ok reg"
  show ?thesis
  proof (cases "tool_name t = []")
    case True
    with ok ToolObj show ?thesis
      by (simp add: registry_ok_def register_def register_try_def)
  next
    case False
    then have "map fst (tools (register reg obj)) =
        (if tool_name t \<in> set (map fst (tools reg)) then map fst (tools reg)
         else map fst (tools reg) @ [tool_name t])"
      using ToolObj by (simp add: register_def register_try_def dict_set_keys)
    with ok False show ?thesis
      unfolding registry_ok_def by (simp split: if_splits)
  qed
next
  case OtherObj
  assume "registry_ok reg"
  with OtherObj show ?thesis
    by (simp add: registry_ok_def register_def register_try_def)
qed

lemma example_registry_tools:
  "tools example_registry = [(''calculator'', example_calculator), (''pair'', example_pair)]"
  by (simp add: example_registry_def register_def register_try_def new_registry_def
      example_calculator_def example_pair_def)

lemma example_registry_errors: "tool_errors example_registry = []"
  by (simp add: example_registry_def register_def register_try_def new_registry_def
      example_calculator_def example_pair_def)



section \<open>The call schema of a tool\<close>

lemma schema_loop_eq:
  "schema_loop ps properties required =
     (fold (\<lambda>p d. dict_set d (param_name p) (param_schema p)) ps properties,
      required @ map param_name (filter param_required ps))"
  by (induction ps arbitrary: properties required) auto

lemma dict_set_keys_set: "fst ` set (dict_set d k v) = insert k (fst ` set d)"
proof -
  have "set (map fst (dict_set d k v)) = insert k (set (map fst d))"
    unfolding dict_set_keys by auto
  then show ?thesis by simp
qed

lemma fold_dict_set_keys_set:
  "fst ` set (fold (\<lambda>p d. dict_set d (param_name p) (param_schema p)) ps d0) =
     fst ` set d0 \<union> param_name ` set ps"
  by (induction ps arbitrary: d0) (simp_all add: dict_set_keys_set)

lemma find_append:
  "find P (xs @ ys) = (case find P xs of None \<Rightarrow> find P ys | Some x \<Rightarrow> Some x)"
  by (induction xs) simp_all

lemma fold_dict_set_distinct:
  "distinct (map fst d0) \<Longrightarrow>
     distinct (map fst (fold (\<lambda>p d. dict_set d (param_name p) (param_schema p)) ps d0))"
  by (induction ps arbitrary: d0) (auto simp: dict_set_distinct)

lemma fold_dict_set_lookup:
  "map_of (fold (\<lambda>p d. dict_set d (param_name p) (param_schema p)) ps d0) n =
     (case find (\<lambda>p. param_name p = n) (rev ps) of
        Some p \<Rightarrow> Some (param_schema p)
      | None \<Rightarrow> map_of d0 n)"
proof (induction ps arbitrary: d0)
  case Nil
  then show ?case by simp
next
  case (Cons p ps)
  show ?case
    by (simp add: Cons.IH find_append map_of_dict_set split: option.splits)
qed

lemma find_rev_distinct:
  "distinct (map f ps) \<Longrightarrow> p \<in> set ps \<Longrightarrow> find (\<lambda>q. f q = f p) (rev ps) = Some p"
proof (induction ps)
  case Nil
  then show ?case by simp
next
  case (Cons a ps)
  show ?case
  proof (cases "p = a")
    case True
    from Cons.prems have "f a \<notin> f ` set ps" by simp
    then have "\<not> (\<exists>x. x \<in> set (rev ps) \<and> f x = f a)"
      by (metis imageI set_rev)
    then have "find (\<lambda>q. f q = f a) (rev ps) = None"
      by (simp add: find_None_iff)
    with True show ?thesis by (simp add: find_append)
  next
    case False
    with Cons have "find (\<lambda>q. f q = f p) (rev ps) = Some p" by simp
    then show ?thesis by (simp add: find_append)
  qed
qed

lemma param_schema_fields:
  "jget (param_schema p) ''type'' = Some (JString (param_type p))"
  "jget (param_schema p) ''description'' = Some (JString (param_description p))"
  by (simp_all add: param_schema_def)

text \<open>
  C7. The schema that \<open>to_openai_tool\<close> builds has type object; its required list is
  exactly the names of the parameters marked required, in declaration order; its properties
  have one key per parameter name, and a key holds the type and the description of the
  parameter of that name (of the last one declared, should a name be declared twice). For
  the parameter list of one required parameter x of type number, the required list is
  [x] and the type under properties.x is number.
\<close>

theorem to_openai_tool_schema:
  "jpath (to_openai_tool t) [''function'', ''parameters'', ''type''] = Some (JString ''object'')
   \<and> jpath (to_openai_tool t) [''function'', ''parameters'', ''required'']
       = Some (JArray (map JString (map param_name (filter param_required (tool_parameters t)))))
   \<and> (\<exists>properties.
         jpath (to_openai_tool t) [''function'', ''parameters'', ''properties'']
           = Some (JObject properties)
         \<and> distinct (map fst properties)
         \<and> set (map fst properties) = set (map param_name (tool_parameters t))
         \<and> (\<forall>n. map_of properties n =
                map_option param_schema (find (\<lambda>p. param_name p = n) (rev (tool_parameters t)))))
   \<and> (distinct (map param_name (tool_parameters t)) \<longrightarrow>
        (\<forall>p \<in> set (tool_parameters t).
           jpath (to_openai_tool t) [''function'', ''parameters'', ''properties'', param_name p, ''type'']
             = Some (JString (param_type p))
         \<and> jpath (to_openai_tool t)
               [''function'', ''parameters'', ''properties'', param_name p, ''description'']
             = Some (JString (param_description p))))
   \<and> (\<forall>d e. tool_parameters t =
          [\<lparr>param_name = ''x'', param_type = ''number'', param_description = d,
            param_required = True, param_enum = e\<rparr>] \<longrightarrow>
        jpath (to_openai_tool t) [''function'', ''parameters'', ''required'']
          = Some (JArray [JString ''x''])
        \<and> jpath (to_openai_tool t) [''function'', ''parameters'', ''properties'', ''x'', ''type'']
          = Some (JString ''number''))"
proof -
  define properties where
    "properties = fold (\<lambda>p d. dict_set d (param_name p) (param_schema p)) (tool_parameters t) []"
  have props: "jpath (to_openai_tool t) [''function'', ''parameters'', ''properties'']
      = Some (JObject properties)"
    by (simp add: to_openai_tool_def schema_loop_eq properties_def)
  have lookup: "map_of properties n =
      map_option param_schema (find (\<lambda>p. param_name p = n) (rev (tool_parameters t)))" for n
    by (simp add: properties_def fold_dict_set_lookup split: option.splits)
  have path: "jpath (to_openai_tool t) ([''function'', ''parameters'', ''properties'', n, k])
      = (case map_of properties n of None \<Rightarrow> None | Some j \<Rightarrow> jpath j [k])" for n k
    by (simp add: to_openai_tool_def schema_loop_eq properties_def)
  have c1: "jpath (to_openai_tool t) [''function'', ''parameters'', ''type''] = Some (JString ''object'')"
    by (simp add: to_openai_tool_def schema_loop_eq)
  have c2: "jpath (to_openai_tool t) [''function'', ''parameters'', ''required'']
       = Some (JArray (map JString (map param_name (filter param_required (tool_parameters t)))))"
    by (simp add: to_openai_tool_def schema_loop_eq)
  have c3: "\<exists>properties.
         jpath (to_openai_tool t) [''function'', ''parameters'', ''properties'']
           = Some (JObject properties)
         \<and> distinct (map fst properties)
         \<and> set (map fst properties) = set (map param_name (tool_parameters t))
         \<and> (\<forall>n. map_of properties n =
                map_option param_schema (find (\<lambda>p. param_name p = n) (rev (tool_parameters t))))"
  proof (intro exI conjI allI)
    show "jpath (to_openai_tool t) [''function'', ''parameters'', ''properties'']
           = Some (JObject properties)" by (rule props)
    show "distinct (map fst properties)"
      unfolding properties_def by (rule fold_dict_set_distinct) simp
    show "set (map fst properties) = set (map param_name (tool_parameters t))"
      unfolding properties_def by (simp add: fold_dict_set_keys_set)
    show "map_of properties n =
      map_option param_schema (find (\<lambda>p. param_name p = n) (rev (tool_parameters t)))" for n
      by (rule lookup)
  qed
  have c4: "jpath (to_openai_tool t) [''function'', ''parameters'', ''properties'', param_name p, ''type'']
             = Some (JString (param_type p))
         \<and> jpath (to_openai_tool t)
               [''function'', ''parameters'', ''properties'', param_name p, ''description'']
             = Some (JString (param_description p))"
    if "distinct (map param_name (tool_parameters t))" and "p \<in> set (tool_parameters t)" for p
  proof -
    from that have "find (\<lambda>q. param_name q = param_name p) (rev (tool_parameters t)) = Some p"
      by (rule find_rev_distinct)
    then have "map_of properties (param_name p) = Some (param_schema p)"
      by (simp add: lookup)
    then show ?thesis
      unfolding path by (simp add: param_schema_fields)
  qed
  have c5: "jpath (to_openai_tool t) [''function'', ''parameters'', ''required'']
          = Some (JArray [JString ''x''])
        \<and> jpath (to_openai_tool t) [''function'', ''parameters'', ''properties'', ''x'', ''type'']
          = Some (JString ''number'')"
    if "tool_parameters t =
          [\<lparr>param_name = ''x'', param_type = ''number'', param_description = d,
            param_required = True, param_enum = e\<rparr>]" for d e
    using that by (simp add: to_openai_tool_def param_schema_def)
  show ?thesis
  proof (intro conjI)
    show "jpath (to_openai_tool t) [''function'', ''parameters'', ''type''] = Some (JString ''object'')"
      by (rule c1)
    show "jpath (to_openai_tool t) [''function'', ''parameters'', ''required'']
       = Some (JArray (map JString (map param_name (filter param_required (tool_parameters t)))))"
      by (rule c2)
    show "\<exists>properties.
         jpath (to_openai_tool t) [''function'', ''parameters'', ''properties'']
           = Some (JObject properties)
         \<and> distinct (map fst properties)
         \<and> set (map fst properties) = set (map param_name (tool_parameters t))
         \<and> (\<forall>n. map_of properties n =
                map_option param_schema (find (\<lambda>p. param_name p = n) (rev (tool_parameters t))))"
      by (rule c3)
    show "distinct (map param_name (tool_parameters t)) \<longrightarrow>
        (\<forall>p \<in> set (tool_parameters t).
           jpath (to_openai_tool t) [''function'', ''parameters'', ''properties'', param_name p, ''type'']
             = Some (JString (param_type p))
         \<and> jpath (to_openai_tool t)
               [''function'', ''parameters'', ''properties'', param_name p, ''description'']
             = Some (JString (param_description p)))"
      by (intro impI ballI) (rule c4)
    show "\<forall>d e. tool_parameters t =
          [\<lparr>param_name = ''x'', param_type = ''number'', param_description = d,
            param_required = True, param_enum = e\<rparr>] \<longrightarrow>
        jpath (to_openai_tool t) [''function'', ''parameters'', ''required'']
          = Some (JArray [JString ''x''])
        \<and> jpath (to_openai_tool t) [''function'', ''parameters'', ''properties'', ''x'', ''type'']
          = Some (JString ''number'')"
      by (intro allI impI) (rule c5)
  qed
qed

theorem to_openai_tool_schema_witness:
  "distinct (map param_name (tool_parameters example_pair))
   \<and> tool_parameters example_x_tool =
          [\<lparr>param_name = ''x'', param_type = ''number'', param_description = ''a number'',
            param_required = True, param_enum = None\<rparr>]
   \<and> jpath (to_openai_tool example_x_tool) [''function'', ''parameters'', ''required'']
        = Some (JArray [JString ''x''])
   \<and> jpath (to_openai_tool example_x_tool) [''function'', ''parameters'', ''properties'', ''x'', ''type'']
        = Some (JString ''number'')
   \<and> jpath (to_openai_tool example_pair) [''function'', ''parameters'', ''required'']
        = Some (JArray [JString ''a'', JString ''b''])
   \<and> jpath (to_openai_tool example_pair) [''function'', ''parameters'', ''properties'', ''c'', ''type'']
        = Some (JString ''string'')"
proof -
  have d: "distinct (map param_name (tool_parameters example_pair))"
    by (simp add: example_pair_def)
  have x: "tool_parameters example_x_tool =
          [\<lparr>param_name = ''x'', param_type = ''number'', param_description = ''a number'',
            param_required = True, param_enum = None\<rparr>]"
    by (simp add: example_x_tool_def)
  have c: "\<lparr>param_name = ''c'', param_type = ''string'', param_description = ''third'',
          param_required = False, param_enum = Some [''u'', ''v'']\<rparr> \<in> set (tool_parameters example_pair)"
    by (simp add: example_pair_def)
  have r: "map param_name (filter param_required (tool_parameters example_pair)) = [''a'', ''b'']"
    by (simp add: example_pair_def)
  note T1 = to_openai_tool_schema [of example_x_tool]
  note 1 = T1 [THEN conjunct2, THEN conjunct2, THEN conjunct2, THEN conjunct2,
      THEN spec, THEN spec, THEN mp, OF x]
  note T2 = to_openai_tool_schema [of example_pair]
  have 2: "jpath (to_openai_tool example_pair) [''function'', ''parameters'', ''required'']
        = Some (JArray [JString ''a'', JString ''b''])"
    using T2 [THEN conjunct2, THEN conjunct1] by (simp only: r list.map)
  have "jpath (to_openai_tool example_pair)
      [''function'', ''parameters'', ''properties'',
       param_name \<lparr>param_name = ''c'', param_type = ''string'', param_description = ''third'',
          param_required = False, param_enum = Some [''u'', ''v'']\<rparr>, ''type'']
      = Some (JString (param_type \<lparr>param_name = ''c'', param_type = ''string'',
          param_description = ''third'', param_required = False, param_enum = Some [''u'', ''v'']\<rparr>))"
    using T2 [THEN conjunct2, THEN conjunct2, THEN conjunct2, THEN conjunct1, THEN mp, OF d,
        THEN bspec, OF c, THEN conjunct1] .
  then have 3: "jpath (to_openai_tool example_pair)
      [''function'', ''parameters'', ''properties'', ''c'', ''type''] = Some (JString ''string'')"
    by (simp only: ToolParameter.simps)
  show ?thesis
    by (intro conjI) (rule d x 1 [THEN conjunct1] 1 [THEN conjunct2] 2 3)+

qed

section \<open>Dispatch\<close>



lemma execute_tool_returns: "\<exists>text w'. execute_tool reg name kwargs w = (Inr text, w')"
proof (cases "execute_tool_try reg name kwargs w")
  case (Pair r w')
  then show ?thesis by (cases r) (simp_all add: execute_tool_def)
qed







lemma example_names: "list_tools example_registry = [''calculator'', ''pair'']"
  by (simp add: list_tools_def example_registry_tools)









section \<open>One response's tool calls\<close>

lemma handle_accepted:
  assumes "call_accepted loads c"
  shows "\<exists>out w'. handle_tool_call_try loads self c w =
     (Inr (tool_result_message c out),
      self\<lparr>conversation_history := conversation_history self @ [tool_call_message c]\<rparr>, w')"
proof -
  from assms obtain kvs where l: "loads (call_function_arguments c) = Inr (JObject kvs)"
    and f: "find (\<lambda>k. k = ''self'' \<or> k = ''name'') (map fst kvs) = None"
    by (auto simp: call_accepted_def split: sum.splits json.splits)
  obtain out w' where e: "execute_tool (tool_registry self) (call_function_name c) kvs w = (Inr out, w')"
    using execute_tool_returns [of "tool_registry self" "call_function_name c" kvs w] by blast
  have "handle_tool_call_try loads self c w =
     (Inr (tool_result_message c out),
      self\<lparr>conversation_history := conversation_history self @ [tool_call_message c]\<rparr>, w')"
    by (simp add: handle_tool_call_try_def l format_tool_call_def call_execute_tool_def f e)
  then show ?thesis by blast
qed

lemma call_execute_tool_rejects:
  assumes "\<forall>kvs. j = JObject kvs \<longrightarrow> find (\<lambda>k. k = ''self'' \<or> k = ''name'') (map fst kvs) \<noteq> None"
  shows "\<exists>e. call_execute_tool reg fname j w = (Inl e, w)"
  using assms by (cases j) (auto simp: call_execute_tool_def split: option.splits)

lemma handle_rejected:
  assumes "\<not> call_accepted loads c"
  shows "\<exists>e. handle_tool_call_try loads self c w = (Inl e, self, w)"
proof (cases "loads (call_function_arguments c)")
  case (Inl e)
  then show ?thesis by (simp add: handle_tool_call_try_def)
next
  case (Inr j)
  with assms have rej: "\<forall>kvs. j = JObject kvs \<longrightarrow>
      find (\<lambda>k. k = ''self'' \<or> k = ''name'') (map fst kvs) \<noteq> None"
    by (auto simp: call_accepted_def)
  from call_execute_tool_rejects [OF rej, of "tool_registry self" "call_function_name c" w]
  obtain e where e: "call_execute_tool (tool_registry self) (call_function_name c) j w = (Inl e, w)"
    by blast
  show ?thesis
  proof (cases "format_tool_call (call_function_name c) j")
    case (Inl e')
    with Inr show ?thesis by (simp add: handle_tool_call_try_def)
  next
    case (Inr u)
    with \<open>loads (call_function_arguments c) = Inr j\<close> e show ?thesis
      by (simp add: handle_tool_call_try_def)
  qed
qed

lemma handle_tool_calls_loop_shape:
  "\<exists>texts w'. length texts = length calls
     \<and> handle_tool_calls_loop loads calls acc self w =
         (acc @ map2 tool_result_message calls texts,
          self\<lparr>conversation_history := conversation_history self @
                 map tool_call_message (filter (call_accepted loads) calls)\<rparr>,
          w')"
proof (induction calls arbitrary: acc self w)
  case Nil
  then show ?case by simp
next
  case (Cons c calls)
  show ?case
  proof (cases "call_accepted loads c")
    case True
    from handle_accepted [OF True, of self w] obtain out w1 where
      h: "handle_tool_call_try loads self c w =
        (Inr (tool_result_message c out),
         self\<lparr>conversation_history := conversation_history self @ [tool_call_message c]\<rparr>, w1)"
      by blast
    from Cons.IH [of "acc @ [tool_result_message c out]"
        "self\<lparr>conversation_history := conversation_history self @ [tool_call_message c]\<rparr>" w1]
    obtain texts w' where len: "length texts = length calls"
      and ih: "handle_tool_calls_loop loads calls (acc @ [tool_result_message c out])
          (self\<lparr>conversation_history := conversation_history self @ [tool_call_message c]\<rparr>) w1 =
         ((acc @ [tool_result_message c out]) @ map2 tool_result_message calls texts,
          self\<lparr>conversation_history := conversation_history self @ [tool_call_message c]\<rparr>
            \<lparr>conversation_history :=
               conversation_history
                 (self\<lparr>conversation_history := conversation_history self @ [tool_call_message c]\<rparr>) @
               map tool_call_message (filter (call_accepted loads) calls)\<rparr>,
          w')"
      by blast
    have "length (out # texts) = length (c # calls)
       \<and> handle_tool_calls_loop loads (c # calls) acc self w =
         (acc @ map2 tool_result_message (c # calls) (out # texts),
          self\<lparr>conversation_history := conversation_history self @
                 map tool_call_message (filter (call_accepted loads) (c # calls))\<rparr>,
          w')"
      using True len h ih by simp
    then show ?thesis by blast
  next
    case False
    from handle_rejected [OF False, of self w] obtain e where
      h: "handle_tool_call_try loads self c w = (Inl e, self, w)"
      by blast
    from Cons.IH [of "acc @ [tool_result_message c (''Error: '' @ exn_str e)]" self w]
    obtain texts w' where len: "length texts = length calls"
      and ih: "handle_tool_calls_loop loads calls
          (acc @ [tool_result_message c (''Error: '' @ exn_str e)]) self w =
         ((acc @ [tool_result_message c (''Error: '' @ exn_str e)]) @
            map2 tool_result_message calls texts,
          self\<lparr>conversation_history := conversation_history self @
               map tool_call_message (filter (call_accepted loads) calls)\<rparr>,
          w')"
      by blast
    have "length ((''Error: '' @ exn_str e) # texts) = length (c # calls)
       \<and> handle_tool_calls_loop loads (c # calls) acc self w =
         (acc @ map2 tool_result_message (c # calls) ((''Error: '' @ exn_str e) # texts),
          self\<lparr>conversation_history := conversation_history self @
                 map tool_call_message (filter (call_accepted loads) (c # calls))\<rparr>,
          w')"
      using False len h ih by simp
    then show ?thesis by blast
  qed
qed

lemma handle_tool_calls_shape:
  "\<exists>texts w'. length texts = length calls
     \<and> handle_tool_calls loads self calls w =
         (map2 tool_result_message calls texts,
          self\<lparr>conversation_history := conversation_history self @
                 map tool_call_message (filter (call_accepted loads) calls)\<rparr>,
          w')"
  using handle_tool_calls_loop_shape [of calls loads "[]" self w]
  by (simp add: handle_tool_calls_def)



section \<open>One turn\<close>

lemma chat_try_first_fails:
  "client self (first_request self) w = (Inl e, w1) \<Longrightarrow> chat_try loads self w = (Inl e, self, w1)"
  by (simp add: chat_try_def)

lemma chat_try_no_choice:
  "client self (first_request self) w = (Inr [], w1) \<Longrightarrow>
     chat_try loads self w = (Inl (Exn ''IndexError'' ''list index out of range''), self, w1)"
  by (simp add: chat_try_def first_choice_def)

lemma chat_try_plain:
  "client self (first_request self) w = (Inr (m # ms), w1) \<Longrightarrow>
   am_tool_calls m = None \<or> am_tool_calls m = Some [] \<Longrightarrow>
     chat_try loads self w = finish_turn self m w1"
  by (auto simp: chat_try_def first_choice_def)

lemma chat_try_tools:
  assumes "client self (first_request self) w = (Inr (m # ms), w1)"
    and "am_tool_calls m = Some calls" and "calls \<noteq> []"
    and "handle_tool_calls loads self calls w1 = (tool_results, self2, w2)"
  shows "chat_try loads self w =
     (let self3 = self2\<lparr>conversation_history := conversation_history self2 @ tool_results\<rparr> in
      case client self3 (second_request self3) w2 of
        (Inl e, w3) \<Rightarrow> (Inl e, self3, w3)
      | (Inr choices2, w3) \<Rightarrow>
          (case first_choice choices2 of
             Inl e \<Rightarrow> (Inl e, self3, w3)
           | Inr m2 \<Rightarrow> finish_turn self3 m2 w3))"
proof -
  from assms(3) obtain c cs where "calls = c # cs" by (cases calls) auto
  with assms(1,2,4) show ?thesis
    by (simp add: chat_try_def first_choice_def)
qed

text \<open>
  The \<open>try\<close> of \<open>chat\<close> when the first response carries tool calls: what it appends, and
  that an exception leaving it comes from a model call.
\<close>

lemma chat_try_tools_shape:
  assumes first: "client self (first_request self) w = (Inr (m # ms), w1)"
    and calls: "am_tool_calls m = Some calls" "calls \<noteq> []"
  shows "\<exists>texts final r w'. length texts = length calls
     \<and> chat_try loads self w =
         (r, self\<lparr>conversation_history := conversation_history self @
                  map tool_call_message (filter (call_accepted loads) calls) @
                  map2 tool_result_message calls texts @ final\<rparr>, w')
     \<and> ((\<exists>e. r = Inl e \<and> final = []
            \<and> ((\<exists>req u u'. client self req u = (Inl e, u'))
               \<or> (\<exists>req u u'. client self req u = (Inr [], u'))))
        \<or> (\<exists>a t. r = Inr a \<and> final = [assistant_message t]))"
proof -
  from handle_tool_calls_shape [of calls loads self w1]
  obtain texts w2 where len: "length texts = length calls"
    and h: "handle_tool_calls loads self calls w1 =
       (map2 tool_result_message calls texts,
        self\<lparr>conversation_history := conversation_history self @
             map tool_call_message (filter (call_accepted loads) calls)\<rparr>,
        w2)"
    by blast
  let ?self3 = "self\<lparr>conversation_history := conversation_history self @
             map tool_call_message (filter (call_accepted loads) calls) @
             map2 tool_result_message calls texts\<rparr>"
  note t = chat_try_tools [OF first calls h]
  show ?thesis
  proof (cases "client self (second_request ?self3) w2")
    case (Pair r2 w3)
    show ?thesis
    proof (cases r2)
      case (Inl e)
      with Pair t have eq: "chat_try loads self w =
          (Inl e, self\<lparr>conversation_history := conversation_history self @
                  map tool_call_message (filter (call_accepted loads) calls) @
                  map2 tool_result_message calls texts @ []\<rparr>, w3)"
        by simp
      from Pair Inl have "\<exists>req u u'. client self req u = (Inl e, u')" by blast
      then have "(\<exists>e'. (Inl e :: exn + string) = Inl e' \<and> ([]::json list) = []
            \<and> ((\<exists>req u u'. client self req u = (Inl e', u'))
               \<or> (\<exists>req u u'. client self req u = (Inr [], u'))))
        \<or> (\<exists>a t. (Inl e :: exn + string) = Inr a \<and> ([]::json list) = [assistant_message t])"
        by simp
      with len eq show ?thesis by blast
    next
      case (Inr choices2)
      show ?thesis
      proof (cases choices2)
        case Nil
        let ?e = "Exn ''IndexError'' ''list index out of range''"
        from Nil Pair Inr t have eq: "chat_try loads self w =
            (Inl ?e, self\<lparr>conversation_history := conversation_history self @
                  map tool_call_message (filter (call_accepted loads) calls) @
                  map2 tool_result_message calls texts @ []\<rparr>, w3)"
          by (simp add: first_choice_def)
        from Nil Pair Inr have "\<exists>req u u'. client self req u = (Inr [], u')" by blast
        then have "(\<exists>e'. (Inl ?e :: exn + string) = Inl e' \<and> ([]::json list) = []
            \<and> ((\<exists>req u u'. client self req u = (Inl e', u'))
               \<or> (\<exists>req u u'. client self req u = (Inr [], u'))))
          \<or> (\<exists>a t. (Inl ?e :: exn + string) = Inr a \<and> ([]::json list) = [assistant_message t])"
          by simp
        with len eq show ?thesis by blast
      next
        case (Cons m2 ms2)
        let ?a = "case am_content m2 of
                 None \<Rightarrow> ''I don't have a response for that.''
               | Some t \<Rightarrow> if t = [] then ''I don't have a response for that.'' else t"
        from Cons Pair Inr t have eq: "chat_try loads self w =
            (Inr ?a,
             self\<lparr>conversation_history := conversation_history self @
                  map tool_call_message (filter (call_accepted loads) calls) @
                  map2 tool_result_message calls texts @ [assistant_message (am_content m2)]\<rparr>,
             w3)"
          by (simp add: first_choice_def finish_turn_def)
        have "(\<exists>e'. (Inr ?a :: exn + string) = Inl e' \<and> [assistant_message (am_content m2)] = []
            \<and> ((\<exists>req u u'. client self req u = (Inl e', u'))
               \<or> (\<exists>req u u'. client self req u = (Inr [], u'))))
          \<or> (\<exists>a t. (Inr ?a :: exn + string) = Inr a
                \<and> [assistant_message (am_content m2)] = [assistant_message t])"
          by blast
        with len eq show ?thesis by blast
      qed
    qed
  qed
qed

text \<open>
  What the \<open>try\<close> of \<open>chat\<close> does to the chatbot in every case: it appends to the
  transcript and touches nothing else; an exception leaves it only from a model call.
\<close>

lemma chat_try_frame:
  "\<exists>r added w'. chat_try loads self w =
     (r, self\<lparr>conversation_history := conversation_history self @ added\<rparr>, w')
     \<and> (\<forall>e. r = Inl e \<longrightarrow>
          (\<exists>req u u'. client self req u = (Inl e, u'))
          \<or> (\<exists>req u u'. client self req u = (Inr [], u')))"
proof (cases "client self (first_request self) w")
  case (Pair r1 w1)
  show ?thesis
  proof (cases r1)
    case (Inl e)
    with Pair have eq: "chat_try loads self w =
        (Inl e, self\<lparr>conversation_history := conversation_history self @ []\<rparr>, w1)"
      by (simp add: chat_try_first_fails)
    from Pair Inl have "\<exists>req u u'. client self req u = (Inl e, u')" by blast
    then have "\<forall>e'. (Inl e :: exn + string) = Inl e' \<longrightarrow>
          (\<exists>req u u'. client self req u = (Inl e', u'))
          \<or> (\<exists>req u u'. client self req u = (Inr [], u'))"
      by simp
    with eq show ?thesis by blast
  next
    case (Inr choices)
    show ?thesis
    proof (cases choices)
      case Nil
      let ?e = "Exn ''IndexError'' ''list index out of range''"
      from Nil Pair Inr have eq: "chat_try loads self w =
        (Inl ?e, self\<lparr>conversation_history := conversation_history self @ []\<rparr>, w1)"
        by (simp add: chat_try_no_choice)
      from Nil Pair Inr have "\<exists>req u u'. client self req u = (Inr [], u')" by blast
      then have "\<forall>e'. (Inl ?e :: exn + string) = Inl e' \<longrightarrow>
          (\<exists>req u u'. client self req u = (Inl e', u'))
          \<or> (\<exists>req u u'. client self req u = (Inr [], u'))"
        by simp
      with eq show ?thesis by blast
    next
      case (Cons m ms)
      with Pair Inr have first: "client self (first_request self) w = (Inr (m # ms), w1)"
        by simp
      show ?thesis
      proof (cases "am_tool_calls m = None \<or> am_tool_calls m = Some []")
        case True
        let ?a = "case am_content m of
                 None \<Rightarrow> ''I don't have a response for that.''
               | Some t \<Rightarrow> if t = [] then ''I don't have a response for that.'' else t"
        from chat_try_plain [OF first True]
        have eq: "chat_try loads self w =
          (Inr ?a,
           self\<lparr>conversation_history := conversation_history self @ [assistant_message (am_content m)]\<rparr>,
           w1)"
          by (simp add: finish_turn_def)
        have "\<forall>e'. (Inr ?a :: exn + string) = Inl e' \<longrightarrow>
          (\<exists>req u u'. client self req u = (Inl e', u'))
          \<or> (\<exists>req u u'. client self req u = (Inr [], u'))"
          by simp
        with eq show ?thesis by blast
      next
        case False
        then obtain calls where calls: "am_tool_calls m = Some calls" "calls \<noteq> []"
          by auto
        from chat_try_tools_shape [OF first calls, of loads]
        obtain texts final r w' where eq: "chat_try loads self w =
         (r, self\<lparr>conversation_history := conversation_history self @
                  map tool_call_message (filter (call_accepted loads) calls) @
                  map2 tool_result_message calls texts @ final\<rparr>, w')"
          and cls: "(\<exists>e. r = Inl e \<and> final = []
            \<and> ((\<exists>req u u'. client self req u = (Inl e, u'))
               \<or> (\<exists>req u u'. client self req u = (Inr [], u'))))
            \<or> (\<exists>a t. r = Inr a \<and> final = [assistant_message t])"
          by blast
        from cls have "\<forall>e'. r = Inl e' \<longrightarrow>
          (\<exists>req u u'. client self req u = (Inl e', u'))
          \<or> (\<exists>req u u'. client self req u = (Inr [], u'))"
          by auto
        with eq show ?thesis by blast
      qed
    qed
  qed
qed


lemma chat_frame:
  "\<exists>answer added w'. chat loads self message w =
     (Inr answer,
      self\<lparr>message_count := message_count self + 1,
           conversation_history := conversation_history self @ user_message message # added\<rparr>,
      w')"
proof -
  from chat_try_frame [of loads "begin_turn self message" w]
  obtain r added w' where t: "chat_try loads (begin_turn self message) w =
     (r, (begin_turn self message)\<lparr>conversation_history :=
            conversation_history (begin_turn self message) @ added\<rparr>, w')"
    by blast
  have st: "(begin_turn self message)\<lparr>conversation_history :=
            conversation_history (begin_turn self message) @ added\<rparr> =
      self\<lparr>message_count := message_count self + 1,
           conversation_history := conversation_history self @ user_message message # added\<rparr>"
    by (simp add: begin_turn_def)
  show ?thesis
  proof (cases r)
    case (Inl e)
    with t st have "chat loads self message w =
      (Inr (''Sorry, I encountered an error: '' @ exn_str e),
       self\<lparr>message_count := message_count self + 1,
           conversation_history := conversation_history self @ user_message message # added\<rparr>,
       w')"
      by (simp add: chat_def)
    then show ?thesis by blast
  next
    case (Inr answer)
    with t st have "chat loads self message w =
      (Inr answer,
       self\<lparr>message_count := message_count self + 1,
           conversation_history := conversation_history self @ user_message message # added\<rparr>,
       w')"
      by (simp add: chat_def)
    then show ?thesis by blast
  qed
qed

lemma chat_turns_frame:
  "\<exists>added. length messages \<le> length added
     \<and> fst (chat_turns loads self messages w) =
         self\<lparr>message_count := message_count self + int (length messages),
              conversation_history := conversation_history self @ added\<rparr>"
proof (induction messages arbitrary: self w)
  case Nil
  have "length ([]::string list) \<le> length ([]::json list)
     \<and> fst (chat_turns loads self [] w) =
         self\<lparr>message_count := message_count self + int (length ([]::string list)),
              conversation_history := conversation_history self @ []\<rparr>"
    by simp
  then show ?case by blast
next
  case (Cons message rest)
  from chat_frame [of loads self message w]
  obtain answer added1 w1 where c: "chat loads self message w =
     (Inr answer,
      self\<lparr>message_count := message_count self + 1,
           conversation_history := conversation_history self @ user_message message # added1\<rparr>,
      w1)"
    by blast
  let ?self1 = "self\<lparr>message_count := message_count self + 1,
           conversation_history := conversation_history self @ user_message message # added1\<rparr>"
  from Cons.IH [of ?self1 w1]
  obtain added2 where len: "length rest \<le> length added2"
    and ih: "fst (chat_turns loads ?self1 rest w1) =
         ?self1\<lparr>message_count := message_count ?self1 + int (length rest),
              conversation_history := conversation_history ?self1 @ added2\<rparr>"
    by blast
  have "length (message # rest) \<le> length (user_message message # added1 @ added2)
     \<and> fst (chat_turns loads self (message # rest) w) =
         self\<lparr>message_count := message_count self + int (length (message # rest)),
              conversation_history := conversation_history self @
                (user_message message # added1 @ added2)\<rparr>"
    using len c ih by simp
  then show ?case by blast
qed

section \<open>The example turn\<close>




lemma example_bot_fields:
  "tool_registry (example_bot cl) = example_registry"
  "client (example_bot cl) = cl"
  "conversation_history (example_bot cl) = [system_message ''You are a helpful assistant.'']"
  "message_count (example_bot cl) = 0"
  by (simp_all add: example_bot_def init_chatbot_def example_config_def)






section \<open>The transcript over turns\<close>



text \<open>
  C9. A turn leaves the tool registry as it was, whatever the user message, the model's
  responses and the outcomes of the tools: the same tools in the same order and the same
  error messages, hence the same statistics. The same holds for any sequence of turns.
\<close>

theorem chat_keeps_registry:
  "tool_registry (fst (snd (chat loads self message w))) = tool_registry self
   \<and> list_tools (tool_registry (fst (snd (chat loads self message w)))) = list_tools (tool_registry self)
   \<and> tool_errors (tool_registry (fst (snd (chat loads self message w)))) = tool_errors (tool_registry self)
   \<and> get_registry_stats (tool_registry (fst (snd (chat loads self message w))))
       = get_registry_stats (tool_registry self)
   \<and> tool_registry (fst (chat_turns loads self messages w)) = tool_registry self"
proof -
  from chat_frame [of loads self message w]
  obtain answer added w' where "chat loads self message w =
     (Inr answer,
      self\<lparr>message_count := message_count self + 1,
           conversation_history := conversation_history self @ user_message message # added\<rparr>,
      w')"
    by blast
  then have one: "tool_registry (fst (snd (chat loads self message w))) = tool_registry self"
    by simp
  from chat_turns_frame [of messages loads self w]
  obtain added' where "fst (chat_turns loads self messages w) =
         self\<lparr>message_count := message_count self + int (length messages),
              conversation_history := conversation_history self @ added'\<rparr>"
    by blast
  then have many: "tool_registry (fst (chat_turns loads self messages w)) = tool_registry self"
    by simp
  from one many show ?thesis by simp
qed

theorem chat_keeps_registry_witness:
  "tool_registry (fst (snd (chat example_loads (example_bot example_client) ''what is 2+2'' (0, 0))))
     = example_registry
   \<and> list_tools (tool_registry
        (fst (snd (chat example_loads (example_bot example_client) ''what is 2+2'' (0, 0)))))
     = [''calculator'', ''pair'']"
proof -
  note T = chat_keeps_registry
    [of example_loads "example_bot example_client" "''what is 2+2''" "(0, 0)"]
  have 1: "tool_registry (fst (snd (chat example_loads (example_bot example_client) ''what is 2+2'' (0, 0))))
     = example_registry"
    using T [THEN conjunct1] by (simp add: example_bot_fields)
  have 2: "list_tools (tool_registry
        (fst (snd (chat example_loads (example_bot example_client) ''what is 2+2'' (0, 0)))))
     = [''calculator'', ''pair'']"
    by (simp add: 1 example_names)
  show ?thesis
    by (intro conjI) (rule 1 2)+
qed

section \<open>The tool exchange of a turn\<close>






section \<open>A failing model call\<close>





section \<open>Discovery\<close>

text \<open>
  A module that fails to load adds one entry to the local list of the scan and nothing
  else: the registry is untouched and the scan goes on with the remaining files.
\<close>

lemma discover_files_append:
  "discover_files (fs @ gs) st = discover_files gs (discover_files fs st)"
  by (induction fs arbitrary: st) simp_all

lemma discovery_fault_isolation:
  assumes "import_module f = Inl e" and "\<not> startswith (file_name f) ''__''" and "st_size f \<noteq> 0"
  shows "discover_files (fs @ f # gs) st =
     discover_files gs
       ((discover_files fs st)
          \<lparr>discovery_errors := discovery_errors (discover_files fs st) @
             [''Error loading module '' @ file_name f @ '': '' @ exn_str e]\<rparr>)"
  using assms by (simp add: discover_files_append)

text \<open>
  C6 at three modules of which the second fails to load: the tools of the first and of
  the third are registered and the scan counts one error, in its local list; the
  registry's own error list, which the statistics report, stays empty.
\<close>

theorem discovery_error_not_in_stats:
  "list_tools (registry (auto_discover_tools new_registry (Some example_dir)))
     = [''calculator'', ''pair'']
   \<and> tools_found (auto_discover_tools new_registry (Some example_dir)) = 2
   \<and> discovery_errors (auto_discover_tools new_registry (Some example_dir))
     = [''Error loading module broken.py: No module named requests'']
   \<and> errors (get_registry_stats (registry (auto_discover_tools new_registry (Some example_dir)))) = 0
   \<and> error_messages (get_registry_stats (registry (auto_discover_tools new_registry (Some example_dir))))
     = []"
proof -
  have run: "auto_discover_tools new_registry (Some example_dir) =
     \<lparr>registry = example_registry, tools_found = 2,
      discovery_errors = [''Error loading module broken.py: No module named requests'']\<rparr>"
    by (simp add: auto_discover_tools_def example_dir_def startswith_def example_registry_def)
  show ?thesis
    by (simp add: run example_names get_registry_stats_def example_registry_errors)
qed

end
